theory Spec2Isabelle
  imports Main
begin

section \<open>Python values that cross the HTTP boundary\<close>

text \<open>
  The suite in \<^verbatim>\<open>pytest_mock.py\<close> handles three kinds of dynamic values: text,
  integers (status codes, request indices) and whatever \<^verbatim>\<open>response.json()\<close> parsed.
  A parsed body is a \<open>json\<close> value; Python's \<^verbatim>\<open>None\<close> is \<open>JNull\<close>. An object is the
  list of its items in insertion order, with distinct keys (what \<^verbatim>\<open>json.loads\<close> and a
  dict literal produce). Floating-point numbers are not modelled. A \<open>string\<close> is a list of
  characters with code points below 256.
\<close>

datatype json =
    JNull
  | JBool bool
  | JInt int
  | JStr string
  | JList "json list"
  | JObj "(string \<times> json) list"

text \<open>The exceptions the suite can end with.\<close>

datatype exn =
    Exception string        \<comment> \<open>\<^verbatim>\<open>raise Exception(msg)\<close> in the helpers\<close>
  | AssertionError          \<comment> \<open>a failed \<^verbatim>\<open>assert\<close>\<close>
  | KeyError string         \<comment> \<open>\<^verbatim>\<open>d[k]\<close> with \<open>k\<close> missing\<close>
  | TypeError               \<comment> \<open>\<^verbatim>\<open>v[k]\<close> on a value that is not a dict\<close>
  | ClientError string      \<comment> \<open>the transport failed before a response arrived\<close>
  | JSONDecodeError         \<comment> \<open>\<^verbatim>\<open>response.json()\<close> could not parse the body\<close>

subsection \<open>\<^verbatim>\<open>str()\<close> as used by the f-strings\<close>

definition digit_char :: "nat \<Rightarrow> char" where
  "digit_char d = ''0123456789abcdef'' ! (d mod 16)"

fun str_nat :: "nat \<Rightarrow> string" where
  "str_nat n = (if n < 10 then [digit_char n] else str_nat (n div 10) @ [digit_char (n mod 10)])"

declare str_nat.simps [simp del]

definition str_int :: "int \<Rightarrow> string" where
  "str_int i = (if i < 0 then CHR ''-'' # str_nat (nat (- i)) else str_nat (nat i))"

definition repr_quote :: "string \<Rightarrow> char" where
  "repr_quote s =
     (if CHR 0x27 \<in> set s \<and> CHR 0x22 \<notin> set s then CHR 0x22 else CHR 0x27)"

definition repr_char :: "char \<Rightarrow> char \<Rightarrow> string" where
  "repr_char q c =
     (let n = (of_char c :: nat) in
      if c = q \<or> c = CHR 0x5C then [CHR 0x5C, c]
      else if c = CHR 0x09 then [CHR 0x5C, CHR ''t'']
      else if c = CHR 0x0A then [CHR 0x5C, CHR ''n'']
      else if c = CHR 0x0D then [CHR 0x5C, CHR ''r'']
      else if n < 32 \<or> n = 127 \<or> (128 \<le> n \<and> n \<le> 160) \<or> n = 173
        then [CHR 0x5C, CHR ''x'', digit_char (n div 16), digit_char (n mod 16)]
      else [c])"

definition repr_str :: "string \<Rightarrow> string" where
  "repr_str s = (let q = repr_quote s in q # concat (map (repr_char q) s) @ [q])"

fun join_comma :: "string list \<Rightarrow> string" where
  "join_comma [] = []"
| "join_comma [x] = x"
| "join_comma (x # y # ys) = x @ '', '' @ join_comma (y # ys)"

fun py_repr :: "json \<Rightarrow> string"
  and py_repr_list :: "json list \<Rightarrow> string list"
  and py_repr_items :: "(string \<times> json) list \<Rightarrow> string list" where
  "py_repr JNull = ''None''"
| "py_repr (JBool b) = (if b then ''True'' else ''False'')"
| "py_repr (JInt i) = str_int i"
| "py_repr (JStr s) = repr_str s"
| "py_repr (JList xs) = ''['' @ join_comma (py_repr_list xs) @ '']''"
| "py_repr (JObj kvs) = ''{'' @ join_comma (py_repr_items kvs) @ ''}''"
| "py_repr_list [] = []"
| "py_repr_list (x # xs) = py_repr x # py_repr_list xs"
| "py_repr_items [] = []"
| "py_repr_items ((k, v) # kvs) = (repr_str k @ '': '' @ py_repr v) # py_repr_items kvs"

definition py_str :: "json \<Rightarrow> string" where
  "py_str v = (case v of JStr s \<Rightarrow> s | _ \<Rightarrow> py_repr v)"

subsection \<open>\<^verbatim>\<open>==\<close> on parsed values\<close>

text \<open>
  Python compares numbers by value (\<^verbatim>\<open>True == 1\<close>), lists element by element and dicts as
  mappings, whatever the order of their items.
\<close>

definition bool_int :: "bool \<Rightarrow> int" where
  "bool_int b = (if b then 1 else 0)"

function py_eq :: "json \<Rightarrow> json \<Rightarrow> bool"
  and py_eq_list :: "json list \<Rightarrow> json list \<Rightarrow> bool"
  and py_eq_lookup :: "json \<Rightarrow> string \<Rightarrow> (string \<times> json) list \<Rightarrow> bool"
  and py_eq_sub :: "(string \<times> json) list \<Rightarrow> (string \<times> json) list \<Rightarrow> bool" where
  "py_eq JNull w = (w = JNull)"
| "py_eq (JBool a) w =
     (case w of JBool b \<Rightarrow> a = b | JInt j \<Rightarrow> bool_int a = j | _ \<Rightarrow> False)"
| "py_eq (JInt i) w =
     (case w of JBool b \<Rightarrow> i = bool_int b | JInt j \<Rightarrow> i = j | _ \<Rightarrow> False)"
| "py_eq (JStr s) w = (w = JStr s)"
| "py_eq (JList xs) w = (case w of JList ys \<Rightarrow> py_eq_list xs ys | _ \<Rightarrow> False)"
| "py_eq (JObj a) w =
     (case w of JObj b \<Rightarrow> length a = length b \<and> py_eq_sub a b | _ \<Rightarrow> False)"
| "py_eq_list [] ys = (ys = [])"
| "py_eq_list (x # xs) ys =
     (case ys of [] \<Rightarrow> False | y # ys' \<Rightarrow> py_eq x y \<and> py_eq_list xs ys')"
| "py_eq_lookup u k [] = False"
| "py_eq_lookup u k ((k', v) # b) = (if k = k' then py_eq u v else py_eq_lookup u k b)"
| "py_eq_sub [] b = True"
| "py_eq_sub ((k, u) # a) b = (py_eq_lookup u k b \<and> py_eq_sub a b)"
  by pat_completeness auto
termination
  by (relation "measure (\<lambda>x. case x of
        Inl (Inl (u, v)) \<Rightarrow> size u + size v
      | Inl (Inr (xs, ys)) \<Rightarrow> size_list size xs + size_list size ys
      | Inr (Inl (u, k, b)) \<Rightarrow> size u + size_list (size_prod (\<lambda>_. 0) size) b
      | Inr (Inr (a, b)) \<Rightarrow> size_list (size_prod (\<lambda>_. 0) size) a
                           + size_list (size_prod (\<lambda>_. 0) size) b)")
    auto

text \<open>\<^verbatim>\<open>v[k]\<close> with a string key: a dict answers or raises \<^verbatim>\<open>KeyError\<close>, anything else
  raises \<^verbatim>\<open>TypeError\<close>.\<close>

definition subscript :: "json \<Rightarrow> string \<Rightarrow> exn + json" where
  "subscript v k =
     (case v of
        JObj kvs \<Rightarrow> (case map_of kvs k of Some x \<Rightarrow> Inr x | None \<Rightarrow> Inl (KeyError k))
      | _ \<Rightarrow> Inl TypeError)"

section \<open>Structured logger\<close>

text \<open>
  Line 13 configures the root logger with \<^verbatim>\<open>logging.basicConfig(level=logging.INFO)\<close>.
  The log is the list of records handed to the \<^verbatim>\<open>logging\<close> module, oldest first, each
  with the level of the call that made it; the timestamp the format adds is not modelled.
  The handler prints the records whose level reaches the configured one (\<open>emitted\<close>).
\<close>

datatype loglevel = DEBUG | INFO | WARNING | ERROR

type_synonym log_record = "loglevel \<times> string"

fun levelno :: "loglevel \<Rightarrow> nat" where
  "levelno DEBUG = 10"
| "levelno INFO = 20"
| "levelno WARNING = 30"
| "levelno ERROR = 40"

definition basicConfig_level :: nat where
  "basicConfig_level = levelno INFO"

definition emitted :: "log_record list \<Rightarrow> log_record list" where
  "emitted lg = filter (\<lambda>r. basicConfig_level \<le> levelno (fst r)) lg"

definition logging_call :: "loglevel \<Rightarrow> string \<Rightarrow> log_record list \<Rightarrow> log_record list" where
  "logging_call lv msg lg = lg @ [(lv, msg)]"

text \<open>\<^verbatim>\<open>ai_log(message, level="info")\<close>, lines 15 to 24. It returns nothing, so the model
  returns the log alone.\<close>

definition ai_log :: "string \<Rightarrow> string \<Rightarrow> log_record list \<Rightarrow> log_record list" where
  "ai_log message level lg =
     (if level = ''info'' then logging_call INFO message lg
      else if level = ''error'' then logging_call ERROR message lg
      else if level = ''debug'' then logging_call DEBUG message lg
      else logging_call WARNING
             (''Unknown log level: '' @ level @ ''. Message: '' @ message) lg)"

section \<open>Error classifier\<close>

record error_report =
  status_code :: int
  error_message :: string

definition error_messages :: "(int \<times> string) list" where
  "error_messages =
     [(400, ''Bad Request: The server could not understand the request.''),
      (401, ''Unauthorized: Access is denied due to invalid credentials.''),
      (403, ''Forbidden: You don't have permission to access this resource.''),
      (404, ''Not Found: The requested resource could not be found.''),
      (500, ''Internal Server Error: The server encountered an error.'')]"

text \<open>\<^verbatim>\<open>ai_dynamic_error_handling(status_code, response_text)\<close>, lines 27 to 38.\<close>

definition ai_dynamic_error_handling ::
    "int \<Rightarrow> string \<Rightarrow> log_record list \<Rightarrow> error_report \<times> log_record list" where
  "ai_dynamic_error_handling code response_text lg =
     (let msg = (case map_of error_messages code of
                   Some m \<Rightarrow> m
                 | None \<Rightarrow> ''Unexpected error: '' @ str_int code);
          lg' = ai_log (''Error occurred: '' @ msg @ [CHR 0x0A] @ ''Response: '' @ response_text)
                  ''error'' lg
      in (\<lparr>status_code = code, error_message = msg\<rparr>, lg'))"

section \<open>The world outside the suite\<close>

record http_request =
  meth :: string
  url :: string
  headers :: "(string \<times> string) list"
  body :: "json option"

record http_response =
  status :: int
  text_body :: string                \<comment> \<open>\<^verbatim>\<open>await response.text()\<close>\<close>
  json_body :: "exn + json"          \<comment> \<open>\<^verbatim>\<open>await response.json()\<close>, which may raise\<close>

record chat_request =
  api_key :: string
  base_url :: string
  model_name :: string
  messages :: "(string \<times> string) list"
  stream :: bool

text \<open>
  The proxy server is the external collaborator: it answers the latest request, given all
  the requests sent so far, with a response or with a transport failure. The
  OpenAI-compatible client is a second channel, with its own answers.
\<close>

type_synonym session = "http_request list \<Rightarrow> exn + http_response"

record chat_response =
  rendering :: string                \<comment> \<open>\<^verbatim>\<open>str(response)\<close>\<close>
  chunks :: "string list"            \<comment> \<open>what iterating the response yields, each as text\<close>
  failure :: "exn option"            \<comment> \<open>the exception that ends the iteration, if any\<close>

type_synonym openai = "chat_request list \<Rightarrow> exn + chat_response"

record world =
  log :: "log_record list"
  sent :: "http_request list"
  completions :: "chat_request list"
  slept :: "nat list"

type_synonym 'a action = "world \<Rightarrow> (exn + 'a) \<times> world"

definition await :: "'a action \<Rightarrow> ('a \<Rightarrow> 'b action) \<Rightarrow> 'b action" where
  "await m k w = (case m w of (Inl e, w') \<Rightarrow> (Inl e, w') | (Inr v, w') \<Rightarrow> k v w')"

definition return :: "'a \<Rightarrow> 'a action" where
  "return v w = (Inr v, w)"

definition raise :: "exn \<Rightarrow> 'a action" where
  "raise e w = (Inl e, w)"

definition lift :: "exn + 'a \<Rightarrow> 'a action" where
  "lift r w = (r, w)"

definition log_w :: "string \<Rightarrow> string \<Rightarrow> world \<Rightarrow> world" where
  "log_w message level w = w\<lparr>log := ai_log message level (log w)\<rparr>"

definition classify_w :: "int \<Rightarrow> string \<Rightarrow> world \<Rightarrow> world" where
  "classify_w code response_text w =
     w\<lparr>log := snd (ai_dynamic_error_handling code response_text (log w))\<rparr>"

definition session_request :: "session \<Rightarrow> http_request \<Rightarrow> http_response action" where
  "session_request srv req w = (let h = sent w @ [req] in (srv h, w\<lparr>sent := h\<rparr>))"

definition asyncio_sleep :: "nat \<Rightarrow> world \<Rightarrow> world" where
  "asyncio_sleep secs w = w\<lparr>slept := slept w @ [secs]\<rparr>"

section \<open>Action helpers\<close>

text \<open>\<^verbatim>\<open>new_user(session, i, user_id=None, budget=None, budget_duration=None)\<close>,
  lines 41 to 66.\<close>

definition new_user_data :: "json \<Rightarrow> json \<Rightarrow> json \<Rightarrow> (string \<times> json) list" where
  "new_user_data user_id budget budget_duration =
     [(''models'', JList [JStr ''azure-models'']),
      (''aliases'', JObj [(''mistral-7b'', JStr ''gpt-3.5-turbo'')]),
      (''duration'', JNull),
      (''max_budget'', budget),
      (''budget_duration'', budget_duration)]
     @ (if user_id \<noteq> JNull then [(''user_id'', user_id)] else [])"

definition new_user_request :: "json \<Rightarrow> json \<Rightarrow> json \<Rightarrow> http_request" where
  "new_user_request user_id budget budget_duration =
     \<lparr>meth = ''POST'',
      url = ''http://0.0.0.0:4000/user/new'',
      headers = [(''Authorization'', ''Bearer sk-1234''),
                 (''Content-Type'', ''application/json'')],
      body = Some (JObj (new_user_data user_id budget budget_duration))\<rparr>"

definition new_user :: "session \<Rightarrow> int \<Rightarrow> json \<Rightarrow> json \<Rightarrow> json \<Rightarrow> json action" where
  "new_user srv i user_id budget budget_duration =
     await (session_request srv (new_user_request user_id budget budget_duration))
       (\<lambda>response w.
          let st = status response;
              response_text = text_body response;
              w1 = log_w (''Response '' @ str_int i @ '' (Status code: '' @ str_int st
                          @ ''): '' @ response_text) ''info'' w
          in if st \<noteq> 200
             then (Inl (Exception (''Request '' @ str_int i
                          @ '' did not return a 200 status code: '' @ str_int st)),
                   classify_w st response_text w1)
             else (json_body response, w1))"

text \<open>\<^verbatim>\<open>get_user_info(session, get_user, call_user, view_all=None)\<close>, lines 79 to 104.\<close>

definition get_user_info_request :: "json \<Rightarrow> json \<Rightarrow> bool option \<Rightarrow> http_request" where
  "get_user_info_request get_user call_user view_all =
     \<lparr>meth = ''GET'',
      url = (if view_all = Some True then ''http://0.0.0.0:4000/user/info''
             else ''http://0.0.0.0:4000/user/info?user_id='' @ py_str get_user),
      headers = [(''Authorization'', ''Bearer '' @ py_str call_user),
                 (''Content-Type'', ''application/json'')],
      body = None\<rparr>"

definition get_user_info :: "session \<Rightarrow> json \<Rightarrow> json \<Rightarrow> bool option \<Rightarrow> json action" where
  "get_user_info srv get_user call_user view_all =
     await (session_request srv (get_user_info_request get_user call_user view_all))
       (\<lambda>response w.
          let st = status response;
              response_text = text_body response;
              w1 = log_w (''User info response for '' @ py_str get_user @ '': ''
                          @ response_text) ''info'' w
          in if st \<noteq> 200
             then (let w2 = classify_w st response_text w1
                   in if \<not> py_eq call_user get_user
                      then (Inr (JInt st), w2)
                      else (Inl (Exception (''Request did not return a 200 status code: ''
                                   @ str_int st)),
                            log_w (''call_user: '' @ py_str call_user @ ''; get_user: ''
                                   @ py_str get_user) ''error'' w2))
             else (json_body response, w1))"

text \<open>
  \<^verbatim>\<open>chat_completion(session, key, model="gpt-4")\<close>, lines 177 to 190, and
  \<^verbatim>\<open>chat_completion_streaming\<close>, lines 193 to 204. \<open>now\<close> is the text of \<^verbatim>\<open>time.time()\<close>
  at the call. Neither returns a value.
\<close>

definition chat_messages :: "string \<Rightarrow> (string \<times> string) list" where
  "chat_messages now =
     [(''system'', ''You are a helpful assistant''), (''user'', ''Hello! '' @ now)]"

definition client_create :: "openai \<Rightarrow> chat_request \<Rightarrow> chat_response action" where
  "client_create client req w =
     (let h = completions w @ [req] in (client h, w\<lparr>completions := h\<rparr>))"

definition chat_completion :: "'s \<Rightarrow> string \<Rightarrow> string \<Rightarrow> string \<Rightarrow> openai \<Rightarrow> unit action" where
  "chat_completion session key model now client =
     await (client_create client
              \<lparr>api_key = key, base_url = ''http://0.0.0.0:4000'', model_name = model,
               messages = chat_messages now, stream = False\<rparr>)
       (\<lambda>response w.
          (Inr (), log_w (''Chat completion response: '' @ rendering response) ''info'' w))"

fun log_chunks :: "string list \<Rightarrow> world \<Rightarrow> world" where
  "log_chunks [] w = w"
| "log_chunks (chunk # rest) w =
     log_chunks rest (log_w (''Streaming chunk received: '' @ chunk) ''info'' w)"

definition chat_completion_streaming ::
    "'s \<Rightarrow> string \<Rightarrow> string \<Rightarrow> string \<Rightarrow> openai \<Rightarrow> unit action" where
  "chat_completion_streaming session key model now client =
     await (client_create client
              \<lparr>api_key = key, base_url = ''http://0.0.0.0:4000'', model_name = model,
               messages = chat_messages now, stream = True\<rparr>)
       (\<lambda>response w.
          (case failure response of None \<Rightarrow> Inr () | Some e \<Rightarrow> Inl e,
           log_chunks (chunks response) w))"

section \<open>Test scenarios\<close>






text \<open>\<^verbatim>\<open>test_user_info\<close>, lines 107 to 129. \<open>ts\<close> is the text of \<^verbatim>\<open>time.time()\<close>.\<close>

definition py_assert :: "bool \<Rightarrow> unit action" where
  "py_assert b = (if b then return () else raise AssertionError)"

definition test_user_info_lookups :: "string \<Rightarrow> session \<Rightarrow> json action" where
  "test_user_info_lookups ts srv =
     (let get_user = JStr (''krrish_'' @ ts @ ''@berri.ai'') in
      await (new_user srv 0 get_user JNull JNull) (\<lambda>key_gen.
      await (lift (subscript key_gen ''key'')) (\<lambda>key.
      await (get_user_info srv get_user (JStr ''sk-1234'') None) (\<lambda>_.
      await (get_user_info srv get_user key None) (\<lambda>_.
      await (new_user srv 0 JNull JNull JNull) (\<lambda>key_gen.
      await (lift (subscript key_gen ''key'')) (\<lambda>random_key.
      get_user_info srv get_user random_key None)))))))"

definition test_user_info :: "string \<Rightarrow> session \<Rightarrow> unit action" where
  "test_user_info ts srv =
     await (test_user_info_lookups ts srv) (\<lambda>status. py_assert (py_eq status (JInt 403)))"

text \<open>\<^verbatim>\<open>test_user_update\<close>, lines 132 to 139: the body is \<^verbatim>\<open>pass\<close>.\<close>

definition test_user_update :: "unit action" where
  "test_user_update = return ()"

text \<open>
  \<^verbatim>\<open>test_users_budgets_reset\<close>, lines 143 to 174. The \<^verbatim>\<open>while\<close> loop of lines 163 to 173
  is \<open>poll_loop\<close>, with fuel: \<open>None\<close> says that the fuel ran out before the loop was left.
  The \<^verbatim>\<open>except\<close> branch evaluates \<^verbatim>\<open>i + 1\<close> and drops the value, so the next round starts
  with the same \<open>i\<close>.
\<close>

definition budget_reset_at :: "json \<Rightarrow> exn + json" where
  "budget_reset_at user_info =
     (case subscript user_info ''user_info'' of
        Inl e \<Rightarrow> Inl e
      | Inr u \<Rightarrow> subscript u ''budget_reset_at'')"

fun poll_loop ::
    "nat \<Rightarrow> session \<Rightarrow> json \<Rightarrow> json \<Rightarrow> json \<Rightarrow> int \<Rightarrow> json \<Rightarrow> world
       \<Rightarrow> ((exn + json) \<times> world) option" where
  "poll_loop 0 srv get_user key reset_at_init_value i reset_at_new_value w = None"
| "poll_loop (Suc fuel) srv get_user key reset_at_init_value i reset_at_new_value w =
     (if i < 3 then
        (case await (get_user_info srv get_user key None) (\<lambda>user_info.
                lift (budget_reset_at user_info)) (asyncio_sleep 70 w) of
           (Inl e, w') \<Rightarrow> Some (Inl e, w')
         | (Inr new_value, w') \<Rightarrow>
             if \<not> py_eq reset_at_init_value new_value
             then Some (Inr new_value, w')
             else poll_loop fuel srv get_user key reset_at_init_value i new_value w')
      else Some (Inr reset_at_new_value, w))"

definition test_users_budgets_reset ::
    "nat \<Rightarrow> string \<Rightarrow> session \<Rightarrow> world \<Rightarrow> ((exn + unit) \<times> world) option" where
  "test_users_budgets_reset fuel ts srv w =
     (let get_user = JStr (''krrish_'' @ ts @ ''@berri.ai'') in
      case await (new_user srv 0 get_user (JInt 10) (JStr ''5s'')) (\<lambda>key_gen.
           await (lift (subscript key_gen ''key'')) (\<lambda>key.
           await (get_user_info srv get_user key None) (\<lambda>user_info.
           await (lift (budget_reset_at user_info)) (\<lambda>reset_at_init_value.
           return (key, reset_at_init_value))))) w of
        (Inl e, w') \<Rightarrow> Some (Inl e, w')
      | (Inr (key, reset_at_init_value), w') \<Rightarrow>
          (case poll_loop fuel srv get_user key reset_at_init_value 0 JNull w' of
             None \<Rightarrow> None
           | Some (Inl e, w'') \<Rightarrow> Some (Inl e, w'')
           | Some (Inr reset_at_new_value, w'') \<Rightarrow>
               Some (py_assert (\<not> py_eq reset_at_init_value reset_at_new_value) w'')))"

section \<open>Concrete worlds and servers\<close>

text \<open>The world before a scenario starts, and a server that gives every request the same
  answer. The closed examples below run the helpers against them.\<close>

definition fresh :: world where
  "fresh = \<lparr>log = [], sent = [], completions = [], slept = []\<rparr>"

definition canned :: "int \<Rightarrow> string \<Rightarrow> exn + json \<Rightarrow> session" where
  "canned st txt js = (\<lambda>h. Inr \<lparr>status = st, text_body = txt, json_body = js\<rparr>)"

text \<open>A server that answers the \<open>n\<close>-th request with the \<open>n\<close>-th entry of a script and
  refuses the connection afterwards, and a response with a JSON object as its body.\<close>

definition scripted :: "(exn + http_response) list \<Rightarrow> session" where
  "scripted rs h =
     (if 0 < length h \<and> length h \<le> length rs then rs ! (length h - 1)
      else Inl (ClientError ''connection refused''))"

definition reply :: "int \<Rightarrow> (string \<times> json) list \<Rightarrow> exn + http_response" where
  "reply st kvs =
     Inr \<lparr>status = st, text_body = py_repr (JObj kvs), json_body = Inr (JObj kvs)\<rparr>"

text \<open>The proxy creates a user with key \<^verbatim>\<open>sk-own\<close> and answers the next request, that
  user's lookup of their own record, with status 500.\<close>

definition own_key_server :: session where
  "own_key_server =
     scripted [reply 200 [(''key'', JStr ''sk-own'')],
               reply 500 [(''error'', JStr ''database unavailable'')]]"

text \<open>The five exchanges of the visibility scenario, with the status of the last one left
  open.\<close>

definition visibility_server :: "int \<Rightarrow> session" where
  "visibility_server third =
     scripted [reply 200 [(''key'', JStr ''sk-own'')],
               reply 200 [(''user_id'', JStr ''u'')],
               reply 200 [(''user_id'', JStr ''u'')],
               reply 200 [(''key'', JStr ''sk-other'')],
               reply third [(''error'', JStr ''denied'')]]"

text \<open>A proxy whose answer never changes: status 200, a key, and a reset timestamp that
  stays what it was.\<close>

definition steady :: session where
  "steady = (\<lambda>h. reply 200 [(''key'', JStr ''sk-own''),
                             (''user_info'', JObj [(''budget_reset_at'', JStr ''t0'')])])"

section \<open>Properties of the logger\<close>

lemma ai_log_record:
  "ai_log message level lg =
     lg @ [if level = ''info'' then (INFO, message)
           else if level = ''error'' then (ERROR, message)
           else if level = ''debug'' then (DEBUG, message)
           else (WARNING, ''Unknown log level: '' @ level @ ''. Message: '' @ message)]"
  by (simp add: ai_log_def logging_call_def)

lemma emitted_append:
  "emitted (lg @ [(lv, m)]) = emitted lg @ (if 20 \<le> levelno lv then [(lv, m)] else [])"
  by (simp add: emitted_def basicConfig_level_def)

text \<open>
  C3, as the code has it. For the levels \<^verbatim>\<open>info\<close>, \<^verbatim>\<open>error\<close> and \<^verbatim>\<open>debug\<close> the logger hands
  the message, unchanged, to the logging call of exactly that level; the \<^verbatim>\<open>info\<close> and
  \<^verbatim>\<open>error\<close> records are printed, the \<^verbatim>\<open>debug\<close> record stays below the configured
  \<^verbatim>\<open>INFO\<close> threshold and is not. For every other level, \<^verbatim>\<open>warning\<close> among them, it logs at
  warning level the note \<^verbatim>\<open>Unknown log level: <level>. Message: <message>\<close>. It returns
  nothing and has no failing branch: the model is a total function to the new log.
\<close>

theorem ai_log_levels:
  "(level \<in> {''info'', ''error'', ''debug''} \<longrightarrow>
      ai_log message level lg =
        lg @ [(if level = ''info'' then INFO else if level = ''error'' then ERROR else DEBUG,
               message)]
      \<and> emitted (ai_log message level lg) =
          emitted lg @ (if level = ''debug'' then [] else
             [(if level = ''info'' then INFO else ERROR, message)]))
   \<and> (level \<notin> {''info'', ''error'', ''debug''} \<longrightarrow>
      ai_log message level lg =
        lg @ [(WARNING, ''Unknown log level: '' @ level @ ''. Message: '' @ message)]
      \<and> emitted (ai_log message level lg) =
          emitted lg @ [(WARNING, ''Unknown log level: '' @ level @ ''. Message: '' @ message)])"
  by (simp add: ai_log_record emitted_append)

theorem ai_log_levels_witness:
  "ai_log ''started'' ''error'' [] = [(ERROR, ''started'')]
   \<and> emitted (ai_log ''started'' ''debug'' [(INFO, ''a'')]) = [(INFO, ''a'')]
   \<and> ai_log ''started'' ''trace'' [] = [(WARNING, ''Unknown log level: trace. Message: started'')]"
  using ai_log_levels [of "''error''" "''started''" "[]"]
        ai_log_levels [of "''debug''" "''started''" "[(INFO, ''a'')]"]
        ai_log_levels [of "''trace''" "''started''" "[]"]
  by (simp add: emitted_def basicConfig_level_def)

text \<open>
  C3 as stated fails at the level \<^verbatim>\<open>warning\<close>, which the claim counts among the known
  levels: the record carries the unknown-level note, not the message alone. It also fails at
  \<^verbatim>\<open>debug\<close> if writing means a line on the output: nothing is printed.
\<close>

theorem ai_log_warning_counterexample:
  "ai_log ''m'' ''warning'' [] = [(WARNING, ''Unknown log level: warning. Message: m'')]
   \<and> ai_log ''m'' ''warning'' [] \<noteq> [(WARNING, ''m'')]
   \<and> emitted (ai_log ''m'' ''debug'' []) = []"
  by (simp add: ai_log_def logging_call_def emitted_def basicConfig_level_def)

section \<open>Properties of the error classifier\<close>

lemma classify_message:
  "ai_dynamic_error_handling code response_text lg =
     (let msg = (if code = 400 then ''Bad Request: The server could not understand the request.''
                 else if code = 401
                   then ''Unauthorized: Access is denied due to invalid credentials.''
                 else if code = 403
                   then ''Forbidden: You don't have permission to access this resource.''
                 else if code = 404 then ''Not Found: The requested resource could not be found.''
                 else if code = 500
                   then ''Internal Server Error: The server encountered an error.''
                 else ''Unexpected error: '' @ str_int code)
      in (\<lparr>status_code = code, error_message = msg\<rparr>,
          lg @ [(ERROR, ''Error occurred: '' @ msg @ ''\<newline>Response: '' @ response_text)]))"
  by (simp add: ai_dynamic_error_handling_def error_messages_def ai_log_record Let_def)

text \<open>
  C2, as the code has it. The report pairs the input code with the canned message of the
  five known codes and, for every other code, with \<^verbatim>\<open>Unexpected error: <code>\<close>, the
  code in decimal and the first letter a capital. Before returning, the classifier logs one
  record at error level, \<^verbatim>\<open>Error occurred: <message>\<close>, a line break and
  \<^verbatim>\<open>Response: <body>\<close>, which the handler prints.
\<close>

theorem ai_dynamic_error_handling_report:
  "fst (ai_dynamic_error_handling code response_text lg) =
     \<lparr>status_code = code,
      error_message =
        (if code = 400 then ''Bad Request: The server could not understand the request.''
         else if code = 401 then ''Unauthorized: Access is denied due to invalid credentials.''
         else if code = 403
           then ''Forbidden: You don't have permission to access this resource.''
         else if code = 404 then ''Not Found: The requested resource could not be found.''
         else if code = 500 then ''Internal Server Error: The server encountered an error.''
         else ''Unexpected error: '' @ str_int code)\<rparr>
   \<and> snd (ai_dynamic_error_handling code response_text lg) =
       lg @ [(ERROR, ''Error occurred: ''
                     @ error_message (fst (ai_dynamic_error_handling code response_text lg))
                     @ ''\<newline>Response: '' @ response_text)]
   \<and> emitted (snd (ai_dynamic_error_handling code response_text lg)) =
       emitted lg @ [(ERROR, ''Error occurred: ''
                     @ error_message (fst (ai_dynamic_error_handling code response_text lg))
                     @ ''\<newline>Response: '' @ response_text)]
   \<and> error_message (fst (ai_dynamic_error_handling 599 response_text lg))
       = ''Unexpected error: 599''"
  by (simp add: classify_message Let_def emitted_append str_int_def str_nat.simps digit_char_def)

text \<open>
  C2 as stated fails on the unknown code 599: the message is not exactly
  \<^verbatim>\<open>unexpected error: 599\<close>, it starts with a capital letter.
\<close>

theorem ai_dynamic_error_handling_599_counterexample:
  "error_message (fst (ai_dynamic_error_handling 599 ''gone'' [])) = ''Unexpected error: 599''
   \<and> error_message (fst (ai_dynamic_error_handling 599 ''gone'' [])) \<noteq> ''unexpected error: 599''"
  by (simp add: classify_message str_int_def str_nat.simps digit_char_def)

section \<open>Properties of \<open>new_user\<close>\<close>

lemma sent_log_w [simp]: "sent (log_w m l w) = sent w"
  by (simp add: log_w_def)

lemma sent_classify_w [simp]: "sent (classify_w c t w) = sent w"
  by (simp add: classify_w_def)

lemma log_log_w [simp]: "log (log_w m l w) = ai_log m l (log w)"
  by (simp add: log_w_def)

lemma log_classify_w [simp]:
  "log (classify_w c t w) = snd (ai_dynamic_error_handling c t (log w))"
  by (simp add: classify_w_def)

lemma new_user_sent:
  "sent (snd (new_user srv i user_id budget budget_duration w))
     = sent w @ [new_user_request user_id budget budget_duration]"
  by (simp add: new_user_def await_def session_request_def Let_def split: sum.splits)

lemma new_user_reply:
  assumes "srv (sent w @ [new_user_request user_id budget budget_duration]) = Inr response"
  shows "new_user srv i user_id budget budget_duration w =
     (let w0 = w\<lparr>sent := sent w @ [new_user_request user_id budget budget_duration]\<rparr>;
          w1 = log_w (''Response '' @ str_int i @ '' (Status code: '' @ str_int (status response)
                          @ ''): '' @ text_body response) ''info'' w0
      in if status response \<noteq> 200
         then (Inl (Exception (''Request '' @ str_int i
                          @ '' did not return a 200 status code: '' @ str_int (status response))),
               classify_w (status response) (text_body response) w1)
         else (json_body response, w1))"
  using assms by (simp add: new_user_def await_def session_request_def Let_def)

text \<open>
  C4. When the server answers the POST with a response: on status 200 the helper's result is
  what \<^verbatim>\<open>response.json()\<close> gives, the parsed body; on any other status the response goes
  through the classifier (the log ends with the classifier's record for this status and
  body, after the helper's own info record) and the helper raises the exception whose
  message carries the request index and the status code.
\<close>

theorem new_user_status:
  assumes "srv (sent w @ [new_user_request user_id budget budget_duration]) = Inr response"
  shows "(status response = 200 \<longrightarrow>
            fst (new_user srv i user_id budget budget_duration w) = json_body response)
       \<and> (status response \<noteq> 200 \<longrightarrow>
            fst (new_user srv i user_id budget budget_duration w) =
              Inl (Exception (''Request '' @ str_int i
                     @ '' did not return a 200 status code: '' @ str_int (status response)))
            \<and> log (snd (new_user srv i user_id budget budget_duration w)) =
              snd (ai_dynamic_error_handling (status response) (text_body response)
                     (log w @ [(INFO, ''Response '' @ str_int i @ '' (Status code: ''
                                 @ str_int (status response) @ ''): '' @ text_body response)])))"
  using assms by (simp add: new_user_reply Let_def ai_log_record)

theorem new_user_status_witness:
  "fst (new_user (canned 200 ''{}'' (Inr (JObj []))) 7 JNull JNull JNull fresh) = Inr (JObj [])
   \<and> fst (new_user (canned 500 ''no'' (Inl JSONDecodeError)) 7 JNull JNull JNull fresh)
       = Inl (Exception ''Request 7 did not return a 200 status code: 500'')"
  using new_user_status [of "canned 200 ''{}'' (Inr (JObj []))" fresh JNull JNull JNull
          "\<lparr>status = 200, text_body = ''{}'', json_body = Inr (JObj [])\<rparr>" 7]
        new_user_status [of "canned 500 ''no'' (Inl JSONDecodeError)" fresh JNull JNull JNull
          "\<lparr>status = 500, text_body = ''no'', json_body = Inl JSONDecodeError\<rparr>" 7]
  by (simp add: canned_def str_int_def str_nat.simps digit_char_def)

text \<open>
  C8. Every call sends exactly one request, a POST to \<^verbatim>\<open>/user/new\<close> with the admin bearer
  token, whose body holds the fixed model list, the fixed alias map, a null duration, the
  given budget and budget duration, and a \<^verbatim>\<open>user_id\<close> field exactly when the identifier
  is not \<^verbatim>\<open>None\<close>.
\<close>

theorem new_user_post_body:
  "sent (snd (new_user srv i user_id budget budget_duration w))
     = sent w @ [new_user_request user_id budget budget_duration]
   \<and> meth (new_user_request user_id budget budget_duration) = ''POST''
   \<and> url (new_user_request user_id budget budget_duration) = ''http://0.0.0.0:4000/user/new''
   \<and> map_of (headers (new_user_request user_id budget budget_duration)) ''Authorization''
       = Some ''Bearer sk-1234''
   \<and> body (new_user_request user_id budget budget_duration)
       = Some (JObj (new_user_data user_id budget budget_duration))
   \<and> map_of (new_user_data user_id budget budget_duration) ''models''
       = Some (JList [JStr ''azure-models''])
   \<and> map_of (new_user_data user_id budget budget_duration) ''aliases''
       = Some (JObj [(''mistral-7b'', JStr ''gpt-3.5-turbo'')])
   \<and> map_of (new_user_data user_id budget budget_duration) ''duration'' = Some JNull
   \<and> map_of (new_user_data user_id budget budget_duration) ''max_budget'' = Some budget
   \<and> map_of (new_user_data user_id budget budget_duration) ''budget_duration''
       = Some budget_duration
   \<and> map_of (new_user_data user_id budget budget_duration) ''user_id''
       = (if user_id = JNull then None else Some user_id)
   \<and> map fst (new_user_data user_id budget budget_duration)
       = [''models'', ''aliases'', ''duration'', ''max_budget'', ''budget_duration'']
         @ (if user_id = JNull then [] else [''user_id''])"
  by (simp add: new_user_sent new_user_request_def new_user_data_def)

section \<open>Properties of \<open>get_user_info\<close>\<close>

lemma get_user_info_sent:
  "sent (snd (get_user_info srv get_user call_user view_all w))
     = sent w @ [get_user_info_request get_user call_user view_all]"
  by (simp add: get_user_info_def await_def session_request_def Let_def split: sum.splits)

text \<open>What the helper returns once the server has answered: the guard of line 99 compares
  the caller's bearer token with the identifier that is looked up.\<close>

lemma get_user_info_reply:
  assumes "srv (sent w @ [get_user_info_request get_user call_user view_all]) = Inr response"
  shows "fst (get_user_info srv get_user call_user view_all w) =
           (if status response = 200 then json_body response
            else if \<not> py_eq call_user get_user then Inr (JInt (status response))
            else Inl (Exception (''Request did not return a 200 status code: ''
                                   @ str_int (status response))))"
  using assms by (simp add: get_user_info_def await_def session_request_def Let_def)

lemma get_user_info_Inr:
  assumes "get_user_info srv get_user call_user view_all w = (r, w1)"
  shows "sent w1 = sent w @ [get_user_info_request get_user call_user view_all]"
  using get_user_info_sent [of srv get_user call_user view_all w] assms by simp

text \<open>
  C1 does not hold of the code when a user looks up their own record with their own key,
  the call that \<^verbatim>\<open>test_user_info\<close> makes under the comment \<^verbatim>\<open>as user themself\<close>. The user
  \<^verbatim>\<open>krrish_1.5@berri.ai\<close> is created and gets the key \<^verbatim>\<open>sk-own\<close>; the lookup of that
  user with that key is answered with status 500. The caller is querying their own
  identity, so the claim asks for a failure; the helper returns the status 500 as its
  result, because the key is not the same string as the identifier.
\<close>

theorem get_user_info_own_key_returns_status:
  "fst (await (new_user own_key_server 0 (JStr ''krrish_1.5@berri.ai'') JNull JNull)
          (\<lambda>key_gen. await (lift (subscript key_gen ''key''))
          (\<lambda>key. get_user_info own_key_server (JStr ''krrish_1.5@berri.ai'') key None)) fresh)
     = Inr (JInt 500)
   \<and> fst (await (new_user own_key_server 0 (JStr ''krrish_1.5@berri.ai'') JNull JNull)
          (\<lambda>key_gen. lift (subscript key_gen ''key'')) fresh)
     = Inr (JStr ''sk-own'')"
  by (simp add: own_key_server_def scripted_def reply_def fresh_def new_user_def
        get_user_info_def await_def lift_def session_request_def Let_def subscript_def
        py_str_def)

section \<open>Properties of the visibility scenario\<close>

lemma await_Inr:
  "await m k w = (Inr v, w') \<longleftrightarrow> (\<exists>x w1. m w = (Inr x, w1) \<and> k x w1 = (Inr v, w'))"
  by (auto simp: await_def split: prod.splits sum.splits)

lemma lift_Inr: "lift r w = (Inr x, w') \<longleftrightarrow> r = Inr x \<and> w' = w"
  by (auto simp: lift_def)

lemma py_eq_403: "py_eq v (JInt 403) \<longleftrightarrow> v = JInt 403"
  by (cases v) (auto simp: bool_int_def split: json.splits)

lemma new_user_Inr:
  assumes "new_user srv i user_id budget budget_duration w = (Inr j, w1)"
  shows "\<exists>response. srv (sent w @ [new_user_request user_id budget budget_duration]) = Inr response
           \<and> status response = 200 \<and> json_body response = Inr j
           \<and> sent w1 = sent w @ [new_user_request user_id budget budget_duration]"
proof -
  have s: "sent w1 = sent w @ [new_user_request user_id budget budget_duration]"
    using new_user_sent [of srv i user_id budget budget_duration w] assms by simp
  show ?thesis
  proof (cases "srv (sent w @ [new_user_request user_id budget budget_duration])")
    case (Inl e)
    with assms show ?thesis
      by (simp add: new_user_def await_def session_request_def Let_def)
  next
    case (Inr response)
    with assms s show ?thesis
      by (simp add: new_user_reply Let_def split: if_splits)
  qed
qed

lemma test_user_info_result:
  "test_user_info ts srv w =
     (case test_user_info_lookups ts srv w of
        (Inl e, w') \<Rightarrow> (Inl e, w')
      | (Inr v, w') \<Rightarrow> (if v = JInt 403 then Inr () else Inl AssertionError, w'))"
  by (simp add: test_user_info_def await_def py_assert_def py_eq_403 return_def raise_def
           split: prod.splits sum.splits)

lemma test_user_info_trace:
  assumes "test_user_info_lookups ts srv w = (Inr v, w')"
  shows "\<exists>created key created' random_key.
           srv (sent w @ [new_user_request (JStr (''krrish_'' @ ts @ ''@berri.ai'')) JNull JNull])
             = Inr created
         \<and> status created = 200
         \<and> (case json_body created of Inl e \<Rightarrow> Inl e | Inr key_gen \<Rightarrow> subscript key_gen ''key'')
             = Inr key
         \<and> srv (sent w @
               [new_user_request (JStr (''krrish_'' @ ts @ ''@berri.ai'')) JNull JNull,
                get_user_info_request (JStr (''krrish_'' @ ts @ ''@berri.ai''))
                  (JStr ''sk-1234'') None,
                get_user_info_request (JStr (''krrish_'' @ ts @ ''@berri.ai'')) key None,
                new_user_request JNull JNull JNull])
             = Inr created'
         \<and> status created' = 200
         \<and> (case json_body created' of Inl e \<Rightarrow> Inl e
             | Inr key_gen \<Rightarrow> subscript key_gen ''key'')
             = Inr random_key
         \<and> sent w' = sent w @
               [new_user_request (JStr (''krrish_'' @ ts @ ''@berri.ai'')) JNull JNull,
                get_user_info_request (JStr (''krrish_'' @ ts @ ''@berri.ai''))
                  (JStr ''sk-1234'') None,
                get_user_info_request (JStr (''krrish_'' @ ts @ ''@berri.ai'')) key None,
                new_user_request JNull JNull JNull,
                get_user_info_request (JStr (''krrish_'' @ ts @ ''@berri.ai'')) random_key None]"
proof -
  define get_user where "get_user = JStr (''krrish_'' @ ts @ ''@berri.ai'')"
  from assms obtain key_gen w1 key a w2 b w3 key_gen' w4 random_key where
    c1: "new_user srv 0 get_user JNull JNull w = (Inr key_gen, w1)" and
    k1: "subscript key_gen ''key'' = Inr key" and
    l1: "get_user_info srv get_user (JStr ''sk-1234'') None w1 = (Inr a, w2)" and
    l2: "get_user_info srv get_user key None w2 = (Inr b, w3)" and
    c2: "new_user srv 0 JNull JNull JNull w3 = (Inr key_gen', w4)" and
    k2: "subscript key_gen' ''key'' = Inr random_key" and
    l3: "get_user_info srv get_user random_key None w4 = (Inr v, w')"
    unfolding test_user_info_lookups_def Let_def get_user_def [symmetric] await_Inr lift_Inr
    by blast
  from new_user_Inr [OF c1] obtain created where
    r1: "srv (sent w @ [new_user_request get_user JNull JNull]) = Inr created"
        "status created = 200" "json_body created = Inr key_gen"
        "sent w1 = sent w @ [new_user_request get_user JNull JNull]"
    by blast
  note s2 = get_user_info_Inr [OF l1]
  note s3 = get_user_info_Inr [OF l2]
  from new_user_Inr [OF c2] obtain created' where
    r2: "srv (sent w3 @ [new_user_request JNull JNull JNull]) = Inr created'"
        "status created' = 200" "json_body created' = Inr key_gen'"
        "sent w4 = sent w3 @ [new_user_request JNull JNull JNull]"
    by blast
  note s5 = get_user_info_Inr [OF l3]
  show ?thesis
    unfolding get_user_def [symmetric]
    apply (rule exI [of _ created], rule exI [of _ key], rule exI [of _ created'],
           rule exI [of _ random_key])
    using r1 r2 k1 k2 s2 s3 s5 by simp
qed

text \<open>
  C6. The scenario passes exactly when the third lookup returns the value 403. Whenever the
  three lookups return, the scenario has sent five requests in this order: the creation of
  the user \<^verbatim>\<open>krrish_<ts>@berri.ai\<close>, the lookup of that user with the admin token, the
  lookup with the key the creation returned, the creation of a second user with no
  identifier, and the lookup of the first user with the second user's key; and its result
  is success if the last lookup returned 403 and a failed assertion for any other value.
\<close>

theorem test_user_info_third_lookup:
  "(fst (test_user_info ts srv w) = Inr ())
      = (fst (test_user_info_lookups ts srv w) = Inr (JInt 403))
   \<and> (\<forall>v. fst (test_user_info_lookups ts srv w) = Inr v \<longrightarrow>
        fst (test_user_info ts srv w) = (if v = JInt 403 then Inr () else Inl AssertionError)
      \<and> (\<exists>created key created' random_key.
           srv (sent w @ [new_user_request (JStr (''krrish_'' @ ts @ ''@berri.ai'')) JNull JNull])
             = Inr created
         \<and> status created = 200
         \<and> (case json_body created of Inl e \<Rightarrow> Inl e | Inr key_gen \<Rightarrow> subscript key_gen ''key'')
             = Inr key
         \<and> srv (sent w @
               [new_user_request (JStr (''krrish_'' @ ts @ ''@berri.ai'')) JNull JNull,
                get_user_info_request (JStr (''krrish_'' @ ts @ ''@berri.ai''))
                  (JStr ''sk-1234'') None,
                get_user_info_request (JStr (''krrish_'' @ ts @ ''@berri.ai'')) key None,
                new_user_request JNull JNull JNull])
             = Inr created'
         \<and> status created' = 200
         \<and> (case json_body created' of Inl e \<Rightarrow> Inl e
             | Inr key_gen \<Rightarrow> subscript key_gen ''key'')
             = Inr random_key
         \<and> sent (snd (test_user_info ts srv w)) = sent w @
               [new_user_request (JStr (''krrish_'' @ ts @ ''@berri.ai'')) JNull JNull,
                get_user_info_request (JStr (''krrish_'' @ ts @ ''@berri.ai''))
                  (JStr ''sk-1234'') None,
                get_user_info_request (JStr (''krrish_'' @ ts @ ''@berri.ai'')) key None,
                new_user_request JNull JNull JNull,
                get_user_info_request (JStr (''krrish_'' @ ts @ ''@berri.ai''))
                  random_key None]))"
proof (intro conjI allI impI)
  show "(fst (test_user_info ts srv w) = Inr ())
          = (fst (test_user_info_lookups ts srv w) = Inr (JInt 403))"
    by (auto simp: test_user_info_result split: prod.splits sum.splits if_splits)
next
  fix v assume "fst (test_user_info_lookups ts srv w) = Inr v"
  then show "fst (test_user_info ts srv w)
               = (if v = JInt 403 then Inr () else Inl AssertionError)"
    by (auto simp: test_user_info_result split: prod.splits sum.splits)
next
  fix v assume a: "fst (test_user_info_lookups ts srv w) = Inr v"
  then obtain w' where l: "test_user_info_lookups ts srv w = (Inr v, w')"
    by (cases "test_user_info_lookups ts srv w") simp
  then have "snd (test_user_info ts srv w) = w'"
    by (simp add: test_user_info_result)
  with test_user_info_trace [OF l]
  show "\<exists>created key created' random_key.
           srv (sent w @ [new_user_request (JStr (''krrish_'' @ ts @ ''@berri.ai'')) JNull JNull])
             = Inr created
         \<and> status created = 200
         \<and> (case json_body created of Inl e \<Rightarrow> Inl e | Inr key_gen \<Rightarrow> subscript key_gen ''key'')
             = Inr key
         \<and> srv (sent w @
               [new_user_request (JStr (''krrish_'' @ ts @ ''@berri.ai'')) JNull JNull,
                get_user_info_request (JStr (''krrish_'' @ ts @ ''@berri.ai''))
                  (JStr ''sk-1234'') None,
                get_user_info_request (JStr (''krrish_'' @ ts @ ''@berri.ai'')) key None,
                new_user_request JNull JNull JNull])
             = Inr created'
         \<and> status created' = 200
         \<and> (case json_body created' of Inl e \<Rightarrow> Inl e
             | Inr key_gen \<Rightarrow> subscript key_gen ''key'')
             = Inr random_key
         \<and> sent (snd (test_user_info ts srv w)) = sent w @
               [new_user_request (JStr (''krrish_'' @ ts @ ''@berri.ai'')) JNull JNull,
                get_user_info_request (JStr (''krrish_'' @ ts @ ''@berri.ai''))
                  (JStr ''sk-1234'') None,
                get_user_info_request (JStr (''krrish_'' @ ts @ ''@berri.ai'')) key None,
                new_user_request JNull JNull JNull,
                get_user_info_request (JStr (''krrish_'' @ ts @ ''@berri.ai''))
                  random_key None]"
    by simp
qed

theorem test_user_info_third_lookup_witness:
  "fst (test_user_info ''1.5'' (visibility_server 403) fresh) = Inr ()
   \<and> fst (test_user_info ''1.5'' (visibility_server 404) fresh) = Inl AssertionError
   \<and> fst (test_user_info ''1.5'' (visibility_server 200) fresh) = Inl AssertionError"
proof -
  have a: "fst (test_user_info_lookups ''1.5'' (visibility_server 403) fresh) = Inr (JInt 403)"
    by (simp add: test_user_info_lookups_def visibility_server_def scripted_def reply_def
          fresh_def new_user_def get_user_info_def await_def lift_def session_request_def
          Let_def subscript_def py_str_def)
  have b: "fst (test_user_info_lookups ''1.5'' (visibility_server 404) fresh) = Inr (JInt 404)"
    by (simp add: test_user_info_lookups_def visibility_server_def scripted_def reply_def
          fresh_def new_user_def get_user_info_def await_def lift_def session_request_def
          Let_def subscript_def py_str_def)
  have c: "fst (test_user_info_lookups ''1.5'' (visibility_server 200) fresh)
             = Inr (JObj [(''error'', JStr ''denied'')])"
    by (simp add: test_user_info_lookups_def visibility_server_def scripted_def reply_def
          fresh_def new_user_def get_user_info_def await_def lift_def session_request_def
          Let_def subscript_def py_str_def)
  from a b c
    test_user_info_third_lookup [of "''1.5''" "visibility_server 403" fresh]
    test_user_info_third_lookup [of "''1.5''" "visibility_server 404" fresh]
    test_user_info_third_lookup [of "''1.5''" "visibility_server 200" fresh]
  show ?thesis by simp
qed

section \<open>Properties of the parallel-creation scenario\<close>













section \<open>Properties of the budget-reset scenario\<close>

text \<open>The loop is left with a value only through \<^verbatim>\<open>break\<close>: the counter it tests is
  never advanced, so a round that finds the timestamp unchanged is followed by another.\<close>

lemma poll_loop_counter:
  "poll_loop fuel srv get_user key init i new_value w = Some (Inr v, w') \<Longrightarrow> i < 3
     \<Longrightarrow> \<not> py_eq init v"
proof (induction fuel arbitrary: new_value w)
  case 0
  then show ?case by simp
next
  case (Suc fuel)
  then show ?case
    by (auto split: prod.splits sum.splits if_splits)
qed

lemma steady_lookup:
  "await (get_user_info steady get_user key None) (\<lambda>user_info. lift (budget_reset_at user_info)) w
     = (Inr (JStr ''t0''),
        log_w (''User info response for '' @ py_str get_user @ '': ''
                 @ py_repr (JObj [(''key'', JStr ''sk-own''),
                             (''user_info'', JObj [(''budget_reset_at'', JStr ''t0'')])])) ''info''
          (w\<lparr>sent := sent w @ [get_user_info_request get_user key None]\<rparr>))"
  by (simp add: get_user_info_def await_def session_request_def steady_def reply_def Let_def
        lift_def budget_reset_at_def subscript_def)

lemma poll_loop_steady:
  "poll_loop fuel steady get_user key (JStr ''t0'') 0 new_value w = None"
proof (induction fuel arbitrary: new_value w)
  case 0
  show ?case by simp
next
  case (Suc fuel)
  show ?case
    by (simp only: poll_loop.simps steady_lookup) (simp add: Suc.IH)
qed

lemma steady_start:
  "fst (await (new_user steady 0 get_user budget budget_duration) (\<lambda>key_gen.
        await (lift (subscript key_gen ''key'')) (\<lambda>key.
        await (get_user_info steady get_user key None) (\<lambda>user_info.
        await (lift (budget_reset_at user_info)) (\<lambda>reset_at_init_value.
        return (key, reset_at_init_value))))) w)
     = Inr (JStr ''sk-own'', JStr ''t0'')"
  by (simp add: new_user_def get_user_info_def await_def session_request_def steady_def
        reply_def Let_def lift_def budget_reset_at_def subscript_def return_def)

text \<open>
  C5 does not hold of the code. Against a proxy that keeps answering with the same reset
  timestamp, the scenario does not reach its final assertion, whatever the number of loop
  rounds it is given: line 173 is the expression \<^verbatim>\<open>i + 1\<close>, not an assignment, so \<open>i\<close>
  stays 0 and \<^verbatim>\<open>while i < 3\<close> never turns false.
\<close>

theorem test_users_budgets_reset_never_returns:
  "test_users_budgets_reset fuel ts steady w = None"
proof -
  define start where "start =
     await (new_user steady 0 (JStr (''krrish_'' @ ts @ ''@berri.ai'')) (JInt 10) (JStr ''5s''))
       (\<lambda>key_gen.
        await (lift (subscript key_gen ''key'')) (\<lambda>key.
        await (get_user_info steady (JStr (''krrish_'' @ ts @ ''@berri.ai'')) key None)
          (\<lambda>user_info.
        await (lift (budget_reset_at user_info)) (\<lambda>reset_at_init_value.
        return (key, reset_at_init_value))))) w"
  have "fst start = Inr (JStr ''sk-own'', JStr ''t0'')"
    unfolding start_def by (rule steady_start)
  then obtain w' where "start = (Inr (JStr ''sk-own'', JStr ''t0''), w')"
    by (cases start) simp
  then show ?thesis
    unfolding test_users_budgets_reset_def Let_def start_def
    by (simp add: poll_loop_steady)
qed

section \<open>Properties of the chat helpers\<close>

text \<open>
  C9. Whatever is passed as the session, and of whatever type, both chat helpers issue the
  same request, built from the key, the model and the time alone, through the client they
  make themselves, and end with the same result, log and world.
\<close>

theorem chat_completion_ignores_session:
  "chat_completion s1 key model now client w = chat_completion s2 key model now client w
   \<and> chat_completion_streaming s1 key model now client w
       = chat_completion_streaming s2 key model now client w
   \<and> completions (snd (chat_completion s1 key model now client w))
       = completions w @ [\<lparr>api_key = key, base_url = ''http://0.0.0.0:4000'',
                           model_name = model, messages = chat_messages now, stream = False\<rparr>]
   \<and> completions (snd (chat_completion_streaming s1 key model now client w))
       = completions w @ [\<lparr>api_key = key, base_url = ''http://0.0.0.0:4000'',
                           model_name = model, messages = chat_messages now, stream = True\<rparr>]
   \<and> sent (snd (chat_completion s1 key model now client w)) = sent w
   \<and> sent (snd (chat_completion_streaming s1 key model now client w)) = sent w"
proof -
  have c: "completions (log_w m l v) = completions v" for m l v
    by (simp add: log_w_def)
  have k: "completions (log_chunks cs v) = completions v
             \<and> sent (log_chunks cs v) = sent v" for cs v
    by (induction cs arbitrary: v) (simp_all add: c)
  show ?thesis
    by (simp add: chat_completion_def chat_completion_streaming_def await_def
          client_create_def Let_def c k split: sum.splits)
qed

section \<open>Properties of the user-update scenario\<close>

text \<open>
  C10. The scenario returns normally and leaves the world as it found it: no request sent,
  no completion asked for, nothing logged, no assertion that could fail.
\<close>

theorem test_user_update_does_nothing:
  "test_user_update w = (Inr (), w)"
  by (simp add: test_user_update_def return_def)

end
